theory Spec2Isabelle
  imports Main
begin

section \<open>The values of the configuration\<close>

text \<open>
  \<^verbatim>\<open>astro.config.mjs\<close> builds one object literal out of strings, arrays, nested object
  literals and the value that the call \<^verbatim>\<open>svelte()\<close> returns. An object literal is the list
  of its properties in the order of the source; \<open>'i\<close> is the type of the values an
  integration function returns, which the module never inspects.
\<close>

datatype 'i jsval =
    Str string
  | Arr "'i jsval list"
  | Obj "(string \<times> 'i jsval) list"
  | Host 'i

text \<open>
  Reading a property of an object literal. A later property of the same name overrides
  an earlier one, as in JavaScript; a property that the literal does not list is absent.
\<close>

fun obj_field :: "'i jsval \<Rightarrow> string \<Rightarrow> 'i jsval option" where
  "obj_field (Obj kvs) k = map_of (rev kvs) k"
| "obj_field (Str s) k = None"
| "obj_field (Arr vs) k = None"
| "obj_field (Host i) k = None"

text \<open>Following a chain of property names, as in \<^verbatim>\<open>cfg.vite.css\<close>.\<close>

fun at_path :: "'i jsval \<Rightarrow> string list \<Rightarrow> 'i jsval option" where
  "at_path v [] = Some v"
| "at_path v (k # ks) = (case obj_field v k of None \<Rightarrow> None | Some w \<Rightarrow> at_path w ks)"

section \<open>The imported functions\<close>

text \<open>
  The module imports five functions from other packages:
  \<^verbatim>\<open>defineConfig\<close> from \<^verbatim>\<open>astro/config\<close>, \<^verbatim>\<open>svelte\<close> from \<^verbatim>\<open>@astrojs/svelte\<close>,
  \<^verbatim>\<open>fileURLToPath\<close> from \<^verbatim>\<open>url\<close>, and \<^verbatim>\<open>path.dirname\<close> and \<^verbatim>\<open>path.resolve\<close> from
  \<^verbatim>\<open>path\<close>. Their bodies are not part of the repository, so the module is modelled over
  an arbitrary record of them. A call either returns a value (\<open>Inr\<close>) or throws an
  exception of type \<open>'e\<close> (\<open>Inl\<close>).
\<close>

record ('e, 'i) host =
  defineConfig :: "'i jsval \<Rightarrow> 'e + 'i jsval"
  svelte :: "unit \<Rightarrow> 'e + 'i"
  fileURLToPath :: "string \<Rightarrow> 'e + string"
  path_dirname :: "string \<Rightarrow> 'e + string"
  path_resolve :: "string list \<Rightarrow> 'e + string"

section \<open>The module \<^verbatim>\<open>astro.config.mjs\<close>\<close>

text \<open>
  The object literal of lines 10 to 23, given the value \<open>plugin\<close> of \<^verbatim>\<open>svelte()\<close> and the
  value \<open>styles\<close> of \<^verbatim>\<open>path.resolve(__dirname, 'src/styles')\<close>.
\<close>

definition config_object :: "'i \<Rightarrow> string \<Rightarrow> 'i jsval" where
  \<open>config_object plugin styles =
     Obj [(''integrations'', Arr [Host plugin]),
          (''vite'', Obj [
            (''css'', Obj [
              (''preprocessorOptions'', Obj [
                (''scss'', Obj [
                  (''api'', Str ''modern-compiler''),
                  (''loadPaths'', Arr [Str styles]),
                  (''additionalData'', Str ''@use "utils" as *;'')])])])])]\<close>

text \<open>
  Evaluating the module whose \<^verbatim>\<open>import.meta.url\<close> is \<open>url\<close>, in the order of the source:
  line 7 calls \<^verbatim>\<open>fileURLToPath\<close> and then \<^verbatim>\<open>path.dirname\<close>, whose value the source
  names \<^verbatim>\<open>__dirname\<close> and the model \<open>dirname\<close>; the argument of \<^verbatim>\<open>defineConfig\<close>
  is built by calling \<^verbatim>\<open>svelte\<close> and then \<^verbatim>\<open>path.resolve\<close>; the default export is what
  \<^verbatim>\<open>defineConfig\<close> returns. The module has no \<^verbatim>\<open>try\<close>, so an exception of a call ends the
  evaluation with that exception.
\<close>

definition astro_config :: "('e, 'i) host \<Rightarrow> string \<Rightarrow> 'e + 'i jsval" where
  "astro_config h url =
     (case fileURLToPath h url of Inl e \<Rightarrow> Inl e | Inr filename \<Rightarrow>
     (case path_dirname h filename of Inl e \<Rightarrow> Inl e | Inr dirname \<Rightarrow>
     (case svelte h () of Inl e \<Rightarrow> Inl e | Inr plugin \<Rightarrow>
     (case path_resolve h [dirname, ''src/styles''] of Inl e \<Rightarrow> Inl e | Inr styles \<Rightarrow>
      defineConfig h (config_object plugin styles)))))"

text \<open>The property names that an object literal lists, in the order of the source.\<close>

fun field_names :: "'i jsval \<Rightarrow> string list" where
  "field_names (Obj kvs) = map fst kvs"
| "field_names (Str s) = []"
| "field_names (Arr vs) = []"
| "field_names (Host i) = []"

definition names_at :: "'i jsval \<Rightarrow> string list \<Rightarrow> string list option" where
  "names_at v ks = map_option field_names (at_path v ks)"

text \<open>The chain of property names that leads to the options of the SCSS preprocessor.\<close>

definition scss_path :: "string list" where
  "scss_path = [''vite'', ''css'', ''preprocessorOptions'', ''scss'']"

section \<open>A host to run the module in\<close>

text \<open>
  The theorems below hold for every record of imported functions. To run the module on
  a concrete URL they are instantiated with the following small host: \<^verbatim>\<open>defineConfig\<close>
  returns its argument, the integration is represented by its package name,
  \<^verbatim>\<open>fileURLToPath\<close> strips the scheme of a \<^verbatim>\<open>file:\<close> URL and throws on any other URL,
  \<^verbatim>\<open>path.dirname\<close> drops the last segment, and \<^verbatim>\<open>path.resolve\<close> joins its arguments
  with a slash.
\<close>

datatype sample_error = InvalidUrlScheme | PluginError

definition sample_host :: "(sample_error, string) host" where
  "sample_host =
     \<lparr> defineConfig = Inr,
       svelte = (\<lambda>_. Inr ''@astrojs/svelte''),
       fileURLToPath =
         (\<lambda>u. if take 7 u = ''file://'' then Inr (drop 7 u) else Inl InvalidUrlScheme),
       path_dirname = (\<lambda>p. Inr (rev (drop 1 (dropWhile (\<lambda>c. c \<noteq> CHR ''/'') (rev p))))),
       path_resolve = (\<lambda>ps. Inr (foldr (\<lambda>a b. if b = [] then a else a @ CHR ''/'' # b) ps [])) \<rparr>"

definition sample_url :: string where
  "sample_url = ''file:///site/astro.config.mjs''"

definition sample_config :: "string jsval" where
  "sample_config = config_object ''@astrojs/svelte'' ''/site/src/styles''"


section \<open>Running the module\<close>

lemma astro_config_Inr:
  assumes "astro_config h url = Inr cfg"
  obtains filename dirname plugin styles where
    "fileURLToPath h url = Inr filename"
    "path_dirname h filename = Inr dirname"
    "svelte h () = Inr plugin"
    "path_resolve h [dirname, ''src/styles''] = Inr styles"
    "defineConfig h (config_object plugin styles) = Inr cfg"
  using assms by (auto simp: astro_config_def split: sum.splits)

lemma sample_fileURLToPath: "fileURLToPath sample_host sample_url = Inr ''/site/astro.config.mjs''"
  by (simp add: sample_host_def sample_url_def)

lemma sample_dirname: "path_dirname sample_host ''/site/astro.config.mjs'' = Inr ''/site''"
  by (simp add: sample_host_def)

lemma sample_svelte: "svelte sample_host () = Inr ''@astrojs/svelte''"
  by (simp add: sample_host_def)

lemma sample_resolve: "path_resolve sample_host [''/site'', ''src/styles''] = Inr ''/site/src/styles''"
  by (simp add: sample_host_def)

lemma sample_defineConfig: "defineConfig sample_host = Inr"
  by (simp add: sample_host_def)

lemma sample_run: "astro_config sample_host sample_url = Inr sample_config"
  by (simp add: astro_config_def sample_fileURLToPath sample_dirname sample_svelte
      sample_resolve sample_defineConfig sample_config_def)





section \<open>The exported configuration\<close>

text \<open>
  The four theorems of this section describe the default export \<open>cfg\<close> of an evaluation
  that returned, in a host whose \<^verbatim>\<open>defineConfig\<close> returns the object it is given.
\<close>

text \<open>
  C1: the SCSS preprocessor options of the exported configuration, found under
  \<^verbatim>\<open>vite.css.preprocessorOptions.scss\<close>, select the compiler API \<^verbatim>\<open>modern-compiler\<close>,
  declare a list of load paths, and set \<^verbatim>\<open>additionalData\<close> to the use-statement
  \<^verbatim>\<open>@use "utils" as *;\<close>.
\<close>

theorem scss_options:
  assumes "astro_config h url = Inr cfg" and "defineConfig h = Inr"
  shows \<open>at_path cfg (scss_path @ [''api'']) = Some (Str ''modern-compiler'')
       \<and> (\<exists>paths. at_path cfg (scss_path @ [''loadPaths'']) = Some (Arr paths))
       \<and> at_path cfg (scss_path @ [''additionalData'']) = Some (Str ''@use "utils" as *;'')\<close>
proof -
  from assms(1) obtain plugin styles
    where "defineConfig h (config_object plugin styles) = Inr cfg"
    by (rule astro_config_Inr)
  with assms(2) have "cfg = config_object plugin styles"
    by simp
  then show ?thesis
    by (simp add: config_object_def scss_path_def)
qed

theorem scss_options_witness:
  \<open>astro_config sample_host sample_url = Inr sample_config
   \<and> defineConfig sample_host = Inr
   \<and> at_path sample_config (scss_path @ [''api'']) = Some (Str ''modern-compiler'')
   \<and> (\<exists>paths. at_path sample_config (scss_path @ [''loadPaths'']) = Some (Arr paths))
   \<and> at_path sample_config (scss_path @ [''additionalData'']) = Some (Str ''@use "utils" as *;'')\<close>
  using scss_options [OF sample_run sample_defineConfig] sample_run sample_defineConfig
  by simp

text \<open>
  C2: the integrations list of the exported configuration has exactly one element, the
  value that the call \<^verbatim>\<open>svelte()\<close> returned.
\<close>

theorem integrations_only_svelte:
  assumes "astro_config h url = Inr cfg" and "defineConfig h = Inr"
  shows "\<exists>plugin. svelte h () = Inr plugin
           \<and> obj_field cfg ''integrations'' = Some (Arr [Host plugin])"
proof -
  from assms(1) obtain plugin styles
    where "svelte h () = Inr plugin" "defineConfig h (config_object plugin styles) = Inr cfg"
    by (rule astro_config_Inr)
  with assms(2) have "svelte h () = Inr plugin" "cfg = config_object plugin styles"
    by simp_all
  then show ?thesis
    by (simp add: config_object_def)
qed

theorem integrations_only_svelte_witness:
  "astro_config sample_host sample_url = Inr sample_config
   \<and> defineConfig sample_host = Inr
   \<and> (\<exists>plugin. svelte sample_host () = Inr plugin
         \<and> obj_field sample_config ''integrations'' = Some (Arr [Host plugin]))"
  using integrations_only_svelte [OF sample_run sample_defineConfig] sample_run
    sample_defineConfig
  by simp

text \<open>
  C8: the list of load paths has exactly one entry, the path that \<^verbatim>\<open>path.resolve\<close>
  returned for \<^verbatim>\<open>'src/styles'\<close> relative to \<^verbatim>\<open>__dirname\<close>, where \<^verbatim>\<open>__dirname\<close> is the
  directory, by \<^verbatim>\<open>path.dirname\<close>, of the file that \<^verbatim>\<open>fileURLToPath\<close> gives for the URL
  of the configuration module itself. There is no second entry.
\<close>

theorem loadPaths_single_entry:
  assumes "astro_config h url = Inr cfg" and "defineConfig h = Inr"
  shows "\<exists>filename dirname styles.
           fileURLToPath h url = Inr filename
           \<and> path_dirname h filename = Inr dirname
           \<and> path_resolve h [dirname, ''src/styles''] = Inr styles
           \<and> at_path cfg (scss_path @ [''loadPaths'']) = Some (Arr [Str styles])"
proof -
  from assms(1) obtain filename dirname plugin styles
    where calls: "fileURLToPath h url = Inr filename" "path_dirname h filename = Inr dirname"
      "path_resolve h [dirname, ''src/styles''] = Inr styles"
      and "defineConfig h (config_object plugin styles) = Inr cfg"
    by (rule astro_config_Inr)
  with assms(2) have "cfg = config_object plugin styles"
    by simp
  then have "at_path cfg (scss_path @ [''loadPaths'']) = Some (Arr [Str styles])"
    by (simp add: config_object_def scss_path_def)
  with calls show ?thesis
    by blast
qed

theorem loadPaths_single_entry_witness:
  "astro_config sample_host sample_url = Inr sample_config
   \<and> defineConfig sample_host = Inr
   \<and> (\<exists>filename dirname styles.
         fileURLToPath sample_host sample_url = Inr filename
         \<and> path_dirname sample_host filename = Inr dirname
         \<and> path_resolve sample_host [dirname, ''src/styles''] = Inr styles
         \<and> at_path sample_config (scss_path @ [''loadPaths'']) = Some (Arr [Str styles]))"
  using loadPaths_single_entry [OF sample_run sample_defineConfig] sample_run
    sample_defineConfig
  by simp

text \<open>
  C10: the exported configuration sets the fields \<^verbatim>\<open>integrations\<close> and
  \<^verbatim>\<open>vite.css.preprocessorOptions.scss\<close> and nothing else: the object lists
  \<^verbatim>\<open>integrations\<close> and \<^verbatim>\<open>vite\<close> only, \<^verbatim>\<open>vite\<close> lists \<^verbatim>\<open>css\<close> only, \<^verbatim>\<open>css\<close> lists
  \<^verbatim>\<open>preprocessorOptions\<close> only, and \<^verbatim>\<open>preprocessorOptions\<close> lists \<^verbatim>\<open>scss\<close> only. Every
  other field of the configuration, such as \<^verbatim>\<open>site\<close>, \<^verbatim>\<open>output\<close>, \<^verbatim>\<open>markdown\<close> and
  \<^verbatim>\<open>server\<close>, is absent.
\<close>

theorem only_integrations_and_scss:
  assumes "astro_config h url = Inr cfg" and "defineConfig h = Inr"
  shows "names_at cfg [] = Some [''integrations'', ''vite'']
       \<and> names_at cfg [''vite''] = Some [''css'']
       \<and> names_at cfg [''vite'', ''css''] = Some [''preprocessorOptions'']
       \<and> names_at cfg [''vite'', ''css'', ''preprocessorOptions''] = Some [''scss'']
       \<and> (\<forall>k. k \<noteq> ''integrations'' \<and> k \<noteq> ''vite'' \<longrightarrow> obj_field cfg k = None)
       \<and> obj_field cfg ''site'' = None \<and> obj_field cfg ''output'' = None
       \<and> obj_field cfg ''markdown'' = None \<and> obj_field cfg ''server'' = None"
proof -
  from assms(1) obtain plugin styles
    where "defineConfig h (config_object plugin styles) = Inr cfg"
    by (rule astro_config_Inr)
  with assms(2) have "cfg = config_object plugin styles"
    by simp
  then show ?thesis
    by (simp add: config_object_def names_at_def)
qed

theorem only_integrations_and_scss_witness:
  "astro_config sample_host sample_url = Inr sample_config
   \<and> defineConfig sample_host = Inr
   \<and> names_at sample_config [] = Some [''integrations'', ''vite'']
   \<and> names_at sample_config [''vite''] = Some [''css'']
   \<and> names_at sample_config [''vite'', ''css''] = Some [''preprocessorOptions'']
   \<and> names_at sample_config [''vite'', ''css'', ''preprocessorOptions''] = Some [''scss'']
   \<and> obj_field sample_config ''site'' = None \<and> obj_field sample_config ''output'' = None
   \<and> obj_field sample_config ''markdown'' = None \<and> obj_field sample_config ''server'' = None"
  using only_integrations_and_scss [OF sample_run sample_defineConfig] sample_run
    sample_defineConfig
  by simp

section \<open>Failure\<close>



end
